theory Spec2Isabelle
  imports Main "HOL-Library.Word"
begin

section \<open>The CUDA device array of OpenMM (platforms/cuda/src/CudaArray.cpp)\<close>

subsection \<open>Machine types\<close>

text \<open>
  The code runs on a 64-bit host: a \<^verbatim>\<open>CUdeviceptr\<close>, a \<^verbatim>\<open>size_t\<close>, a host address and a
  stream handle are 64-bit unsigned values, an \<^verbatim>\<open>int\<close> is a 32-bit two's complement value.
  Arithmetic on words wraps around; \<open>scast\<close> is the sign-extending conversion that C++
  applies when an \<^verbatim>\<open>int\<close> meets a \<^verbatim>\<open>size_t\<close> or a \<^verbatim>\<open>CUdeviceptr\<close> in one expression.
  (Overflow of a signed \<^verbatim>\<open>int\<close> operation is undefined in C++; the model gives it the
  two's complement result of the hardware.)
\<close>

type_synonym CUdeviceptr = "64 word"
type_synonym size_t = "64 word"
type_synonym c_int = "32 word"
type_synonym host_ptr = "64 word"
type_synonym CUstream = "64 word"

text \<open>A \<^verbatim>\<open>CUresult\<close> is the numeric status of a driver call; \<^verbatim>\<open>CUDA_SUCCESS\<close> is 0.\<close>

type_synonym CUresult = nat

definition CUDA_SUCCESS :: CUresult where
  "CUDA_SUCCESS = 0"

subsection \<open>Exceptions\<close>

text \<open>
  The code builds most messages with a \<^verbatim>\<open>std::stringstream\<close>; a message is kept as the
  list of the values inserted into the stream, in order: a string, the description
  \<^verbatim>\<open>CudaContext::getErrorString(result)\<close> of a status, or the status printed as a number.
  A message built with \<^verbatim>\<open>+\<close> on strings is one \<open>Str\<close>.
\<close>

datatype msg_part = Str string | ErrorString CUresult | Num CUresult

text \<open>
  \<open>OpenMMException\<close> is the exception the code throws itself. \<open>bad_cast\<close> is what
  \<^verbatim>\<open>dynamic_cast<CudaContext&>\<close> throws on a context of another platform, and
  \<open>unwrap_failure\<close> what \<^verbatim>\<open>CudaContext::unwrap\<close> raises on an array of another platform.
\<close>

datatype exn = OpenMMException "msg_part list" | bad_cast | unwrap_failure

subsection \<open>Contexts, the driver and the world outside the array\<close>

text \<open>
  Modelled from the spec: the class \<^verbatim>\<open>CudaContext\<close> is not among the sources. The array
  uses its validity flag (\<^verbatim>\<open>getContextIsValid()\<close>, the spec's \<^verbatim>\<open>isValid()\<close>) and its
  command stream (\<^verbatim>\<open>getCurrentStream()\<close>). The array holds a pointer to its context and
  never owns it, so a context is referred to by its address and looked up in the world.
\<close>

type_synonym context_ref = nat

record CudaContext =
  contextIsValid :: bool
  currentStream :: CUstream

text \<open>A \<^verbatim>\<open>ComputeContext&\<close> is a context of the CUDA platform or of another one.\<close>

datatype ComputeContext = Cuda_Context context_ref | Other_Context

text \<open>The driver primitives the array calls, with the arguments it passes.\<close>

datatype driver_call =
    MemAlloc size_t
  | MemFree CUdeviceptr
  | MemcpyHtoD CUdeviceptr host_ptr size_t
  | MemcpyHtoDAsync CUdeviceptr host_ptr size_t CUstream
  | MemcpyDtoH host_ptr CUdeviceptr size_t
  | MemcpyDtoHAsync host_ptr CUdeviceptr size_t CUstream
  | MemcpyDtoDAsync CUdeviceptr CUdeviceptr size_t CUstream

text \<open>
  A driver call is logged together with the stack of contexts that were current when it
  was made (the innermost first). The driver itself is outside the code: it is any
  function that answers a call, given everything logged before it, with a status and
  (for an allocation) an address.
\<close>

type_synonym logged_call = "context_ref list \<times> driver_call"

record world =
  driver :: "logged_call list \<Rightarrow> logged_call \<Rightarrow> CUresult \<times> CUdeviceptr"
  calls :: "logged_call list"
  current :: "context_ref list"
  contexts :: "context_ref \<Rightarrow> CudaContext"

definition issue :: "driver_call \<Rightarrow> world \<Rightarrow> (CUresult \<times> CUdeviceptr) \<times> world" where
  "issue c w =
     (driver w (calls w) (current w, c), w\<lparr>calls := calls w @ [(current w, c)]\<rparr>)"

text \<open>
  Modelled from the spec: the driver primitives are not among the sources. An allocation
  "stores the returned handle" on success and leaves the variable it was given untouched
  otherwise ("on failure handle stays 0"); the other primitives report a status.
\<close>

definition cuMemAlloc :: "CUdeviceptr \<Rightarrow> size_t \<Rightarrow> world \<Rightarrow> (CUresult \<times> CUdeviceptr) \<times> world" where
  "cuMemAlloc dptr bytesize w =
     (let ((result, p), w') = issue (MemAlloc bytesize) w
      in ((result, if result = CUDA_SUCCESS then p else dptr), w'))"

definition cuMemFree :: "CUdeviceptr \<Rightarrow> world \<Rightarrow> CUresult \<times> world" where
  "cuMemFree dptr w = (let ((result, p), w') = issue (MemFree dptr) w in (result, w'))"

definition cuMemcpyHtoD :: "CUdeviceptr \<Rightarrow> host_ptr \<Rightarrow> size_t \<Rightarrow> world \<Rightarrow> CUresult \<times> world" where
  "cuMemcpyHtoD dst src n w =
     (let ((result, p), w') = issue (MemcpyHtoD dst src n) w in (result, w'))"

definition cuMemcpyHtoDAsync ::
  "CUdeviceptr \<Rightarrow> host_ptr \<Rightarrow> size_t \<Rightarrow> CUstream \<Rightarrow> world \<Rightarrow> CUresult \<times> world" where
  "cuMemcpyHtoDAsync dst src n s w =
     (let ((result, p), w') = issue (MemcpyHtoDAsync dst src n s) w in (result, w'))"

definition cuMemcpyDtoH :: "host_ptr \<Rightarrow> CUdeviceptr \<Rightarrow> size_t \<Rightarrow> world \<Rightarrow> CUresult \<times> world" where
  "cuMemcpyDtoH dst src n w =
     (let ((result, p), w') = issue (MemcpyDtoH dst src n) w in (result, w'))"

definition cuMemcpyDtoHAsync ::
  "host_ptr \<Rightarrow> CUdeviceptr \<Rightarrow> size_t \<Rightarrow> CUstream \<Rightarrow> world \<Rightarrow> CUresult \<times> world" where
  "cuMemcpyDtoHAsync dst src n s w =
     (let ((result, p), w') = issue (MemcpyDtoHAsync dst src n s) w in (result, w'))"

definition cuMemcpyDtoDAsync ::
  "CUdeviceptr \<Rightarrow> CUdeviceptr \<Rightarrow> size_t \<Rightarrow> CUstream \<Rightarrow> world \<Rightarrow> CUresult \<times> world" where
  "cuMemcpyDtoDAsync dst src n s w =
     (let ((result, p), w') = issue (MemcpyDtoDAsync dst src n s) w in (result, w'))"

text \<open>
  Modelled from the spec: the class \<^verbatim>\<open>ContextSelector\<close> is not among the sources. "On
  construction makes a given context current, on scope exit restores the previously
  current context unconditionally (including on the error path)."
\<close>

definition pushAsCurrent :: "context_ref \<Rightarrow> world \<Rightarrow> world" where
  "pushAsCurrent c w = w\<lparr>current := c # current w\<rparr>"

definition popAsCurrent :: "world \<Rightarrow> world" where
  "popAsCurrent w = w\<lparr>current := tl (current w)\<rparr>"

subsection \<open>The array\<close>

text \<open>
  Modelled from the spec: the class declaration (CudaArray.h) is not among the sources.
  The fields are the attributes of the spec's data model under the names the code uses
  (\<open>pointer\<close> is the handle, \<open>size_arr\<close> is the member \<^verbatim>\<open>size\<close>, the element count,
  \<open>context_ptr\<close> is the member \<^verbatim>\<open>context\<close>). Their types are those of the values the
  code stores in them: \<^verbatim>\<open>pointer\<close> is what \<^verbatim>\<open>cuMemAlloc\<close> writes, \<^verbatim>\<open>size\<close> is assigned
  the \<^verbatim>\<open>size_t\<close> parameter of \<^verbatim>\<open>initialize\<close>, \<^verbatim>\<open>elementSize\<close> its \<^verbatim>\<open>int\<close> parameter,
  \<^verbatim>\<open>name\<close> its string.
\<close>

record CudaArray =
  context_ptr :: context_ref
  pointer :: CUdeviceptr
  size_arr :: size_t
  elementSize :: c_int
  ownsMemory :: bool
  name :: string

text \<open>
  The accessors of the array, which return the members: \<^verbatim>\<open>getSize()\<close> returns the element
  count as the \<^verbatim>\<open>size_t\<close> it is kept as.
\<close>

definition getSize :: "CudaArray \<Rightarrow> size_t" where
  "getSize this = size_arr this"

definition getDevicePointer :: "CudaArray \<Rightarrow> CUdeviceptr" where
  "getDevicePointer this = pointer this"

text \<open>
  Modelled from the spec: the interface \<^verbatim>\<open>ArrayInterface\<close> and \<^verbatim>\<open>CudaContext::unwrap\<close> are
  not among the sources. A generic buffer exposes "logical element count, element size,
  and a diagnostic name"; \<open>unwrap\<close> "downcasts a generic buffer-interface value to this
  core's concrete type, failing if the buffer belongs to a different backend".
\<close>

datatype ArrayInterface = Cuda_Array CudaArray | Other_Array size_t c_int string

fun getSizeI :: "ArrayInterface \<Rightarrow> size_t" where
  "getSizeI (Cuda_Array a) = size_arr a"
| "getSizeI (Other_Array n es nm) = n"

fun getElementSizeI :: "ArrayInterface \<Rightarrow> c_int" where
  "getElementSizeI (Cuda_Array a) = elementSize a"
| "getElementSizeI (Other_Array n es nm) = es"

fun getNameI :: "ArrayInterface \<Rightarrow> string" where
  "getNameI (Cuda_Array a) = name a"
| "getNameI (Other_Array n es nm) = nm"

fun unwrap :: "ArrayInterface \<Rightarrow> exn + CudaArray" where
  "unwrap (Cuda_Array a) = Inr a"
| "unwrap (Other_Array n es nm) = Inl unwrap_failure"

text \<open>
  An operation returns the exception it threw (\<open>None\<close> when it returned normally), the
  array as the call left it, and the world as the call left it.
\<close>

type_synonym outcome = "exn option \<times> CudaArray \<times> world"

definition driver_error :: "string \<Rightarrow> string \<Rightarrow> CUresult \<Rightarrow> exn" where
  "driver_error what nm result =
     OpenMMException [Str what, Str nm, Str '': '', ErrorString result, Str '' ('', Num result, Str '')'']"

definition size_mismatch :: "string \<Rightarrow> string \<Rightarrow> exn" where
  "size_mismatch nm dest_nm =
     OpenMMException [Str (''Error copying array '' @ nm @ '' to '' @ dest_nm
       @ '': The destination array does not match the size of the array'')]"

text \<open>
  \<^verbatim>\<open>CudaArray::CudaArray()\<close> sets \<^verbatim>\<open>pointer\<close> and \<^verbatim>\<open>ownsMemory\<close> and leaves the other
  members as the memory of the new object has them (\<open>raw\<close>).
\<close>

definition CudaArray_new :: "CudaArray \<Rightarrow> CudaArray" where
  "CudaArray_new raw = raw\<lparr>pointer := 0, ownsMemory := False\<rparr>"

text \<open>\<^verbatim>\<open>CudaArray::initialize\<close>\<close>

definition initialize ::
  "CudaArray \<Rightarrow> world \<Rightarrow> ComputeContext \<Rightarrow> size_t \<Rightarrow> c_int \<Rightarrow> string \<Rightarrow> outcome" where
  "initialize this w ctxt sz elSize nm =
     (if pointer this \<noteq> 0 then
        (Some (OpenMMException [Str ''CudaArray has already been initialized'']), this, w)
      else case ctxt of
        Other_Context \<Rightarrow> (Some bad_cast, this, w)
      | Cuda_Context c \<Rightarrow>
          (let this1 = this\<lparr>context_ptr := c, size_arr := sz, elementSize := elSize,
                             name := nm, ownsMemory := True\<rparr>;
               w1 = pushAsCurrent c w;
               ((result, p), w2) = cuMemAlloc (pointer this1) (sz * scast elSize) w1;
               this2 = this1\<lparr>pointer := p\<rparr>;
               w3 = popAsCurrent w2
           in if result \<noteq> CUDA_SUCCESS then
                (Some (driver_error ''Error creating array '' nm result), this2, w3)
              else (None, this2, w3)))"

text \<open>
  \<^verbatim>\<open>CudaArray::CudaArray(context, size, elementSize, name)\<close>: \<^verbatim>\<open>pointer(0)\<close>, then
  \<^verbatim>\<open>initialize\<close>.
\<close>

definition CudaArray_new_init ::
  "CudaArray \<Rightarrow> world \<Rightarrow> context_ref \<Rightarrow> size_t \<Rightarrow> c_int \<Rightarrow> string \<Rightarrow> outcome" where
  "CudaArray_new_init raw w c sz elSize nm =
     initialize (raw\<lparr>pointer := 0\<rparr>) w (Cuda_Context c) sz elSize nm"

text \<open>
  \<^verbatim>\<open>CudaArray::~CudaArray\<close>: the array is gone afterwards, the world remains. The
  destructor is written without an exception specification, and a destructor is then
  \<^verbatim>\<open>noexcept\<close>: the exception of its \<^verbatim>\<open>throw\<close> statement cannot leave it and reaches
  no caller, \<^verbatim>\<open>std::terminate\<close> ends the process instead. A destruction therefore either
  returns or terminates the process, and then with the exception that was thrown. The
  world of a terminated destruction is the world at the \<^verbatim>\<open>throw\<close>: the scope of the
  guard has not been left.
\<close>

datatype ending = Returned | Terminated exn

definition CudaArray_destroy :: "CudaArray \<Rightarrow> world \<Rightarrow> ending \<times> world" where
  "CudaArray_destroy this w =
     (if pointer this \<noteq> 0 \<and> ownsMemory this \<and> contextIsValid (contexts w (context_ptr this)) then
        (let w1 = pushAsCurrent (context_ptr this) w;
             (result, w2) = cuMemFree (pointer this) w1
         in if result \<noteq> CUDA_SUCCESS then
              (Terminated (driver_error ''Error deleting array '' (name this) result), w2)
            else (Returned, popAsCurrent w2))
      else (Returned, w))"

text \<open>\<^verbatim>\<open>CudaArray::resize\<close>\<close>

definition resize :: "CudaArray \<Rightarrow> world \<Rightarrow> size_t \<Rightarrow> outcome" where
  "resize this w sz =
     (if pointer this = 0 then
        (Some (OpenMMException [Str ''CudaArray has not been initialized'']), this, w)
      else if \<not> ownsMemory this then
        (Some (OpenMMException [Str ''Cannot resize an array that does not own its storage'']), this, w)
      else
        (let w1 = pushAsCurrent (context_ptr this) w;
             (result, w2) = cuMemFree (pointer this) w1
         in if result \<noteq> CUDA_SUCCESS then
              (Some (driver_error ''Error deleting array '' (name this) result), this, popAsCurrent w2)
            else
              (let (r, this', w3) =
                     initialize (this\<lparr>pointer := 0\<rparr>) w2 (Cuda_Context (context_ptr this))
                       sz (elementSize this) (name this)
               in (r, this', popAsCurrent w3))))"

text \<open>
  \<^verbatim>\<open>CudaArray::uploadSubArray\<close>. In \<^verbatim>\<open>offset+elements > getSize()\<close> the sum is an \<^verbatim>\<open>int\<close>
  and is converted to \<^verbatim>\<open>size_t\<close> for the comparison, which is unsigned; the products
  \<^verbatim>\<open>offset*elementSize\<close> and \<^verbatim>\<open>elements*elementSize\<close> are \<^verbatim>\<open>int\<close> products, converted
  when added to the pointer and when passed as the byte count.
\<close>

definition uploadSubArray ::
  "CudaArray \<Rightarrow> world \<Rightarrow> host_ptr \<Rightarrow> c_int \<Rightarrow> c_int \<Rightarrow> bool \<Rightarrow> outcome" where
  "uploadSubArray this w data offset elements blocking =
     (if pointer this = 0 then
        (Some (OpenMMException [Str ''CudaArray has not been initialized'']), this, w)
      else if offset <s 0 \<or> scast (offset + elements) > getSize this then
        (Some (OpenMMException [Str ''uploadSubArray: data exceeds range of array'']), this, w)
      else
        (let (result, w1) =
               (if blocking then
                  cuMemcpyHtoD (pointer this + scast (offset * elementSize this)) data
                    (scast (elements * elementSize this)) w
                else
                  cuMemcpyHtoDAsync (pointer this + scast (offset * elementSize this)) data
                    (scast (elements * elementSize this))
                    (currentStream (contexts w (context_ptr this))) w)
         in if result \<noteq> CUDA_SUCCESS then
              (Some (driver_error ''Error uploading array '' (name this) result), this, w1)
            else (None, this, w1)))"

text \<open>\<^verbatim>\<open>CudaArray::download\<close>\<close>

definition download :: "CudaArray \<Rightarrow> world \<Rightarrow> host_ptr \<Rightarrow> bool \<Rightarrow> outcome" where
  "download this w data blocking =
     (if pointer this = 0 then
        (Some (OpenMMException [Str ''CudaArray has not been initialized'']), this, w)
      else
        (let (result, w1) =
               (if blocking then
                  cuMemcpyDtoH data (pointer this) (size_arr this * scast (elementSize this)) w
                else
                  cuMemcpyDtoHAsync data (pointer this) (size_arr this * scast (elementSize this))
                    (currentStream (contexts w (context_ptr this))) w)
         in if result \<noteq> CUDA_SUCCESS then
              (Some (driver_error ''Error downloading array '' (name this) result), this, w1)
            else (None, this, w1)))"

text \<open>\<^verbatim>\<open>CudaArray::copyTo\<close>\<close>

definition copyTo :: "CudaArray \<Rightarrow> world \<Rightarrow> ArrayInterface \<Rightarrow> outcome" where
  "copyTo this w dest =
     (if pointer this = 0 then
        (Some (OpenMMException [Str ''CudaArray has not been initialized'']), this, w)
      else if getSizeI dest \<noteq> size_arr this \<or> getElementSizeI dest \<noteq> elementSize this then
        (Some (size_mismatch (name this) (getNameI dest)), this, w)
      else case unwrap dest of
        Inl e \<Rightarrow> (Some e, this, w)
      | Inr cuDest \<Rightarrow>
          (let (result, w1) =
                 cuMemcpyDtoDAsync (getDevicePointer cuDest) (pointer this)
                   (size_arr this * scast (elementSize this))
                   (currentStream (contexts w (context_ptr this))) w
           in if result \<noteq> CUDA_SUCCESS then
                (Some (OpenMMException [Str ''Error copying array '', Str (name this), Str '' to '',
                         Str (getNameI dest), Str '': '', ErrorString result, Str '' ('',
                         Num result, Str '')'']), this, w1)
              else (None, this, w1)))"

subsection \<open>Notions used in the statements\<close>

text \<open>
  The driver calls logged between two worlds; a call made while a guard for context \<open>c\<close>
  was active (\<open>c\<close> was then the current context); the status with which the driver
  of a world answers a call made under a given stack of contexts.
\<close>

definition new_calls :: "world \<Rightarrow> world \<Rightarrow> logged_call list" where
  "new_calls w w' = drop (length (calls w)) (calls w')"

definition guarded :: "context_ref \<Rightarrow> logged_call \<Rightarrow> bool" where
  "guarded c e = (case fst e of [] \<Rightarrow> False | x # xs \<Rightarrow> x = c)"

definition status :: "world \<Rightarrow> context_ref list \<Rightarrow> driver_call \<Rightarrow> CUresult" where
  "status w stack c = fst (driver w (calls w) (stack, c))"

text \<open>The world after a call has been logged under a stack of contexts.\<close>

definition logged :: "world \<Rightarrow> context_ref list \<Rightarrow> driver_call \<Rightarrow> world" where
  "logged w stack c = w\<lparr>calls := calls w @ [(stack, c)]\<rparr>"

text \<open>
  The contract of the driver's allocation: an allocation that succeeds returns an address
  that is not null.
\<close>

definition alloc_nonnull :: "world \<Rightarrow> bool" where
  "alloc_nonnull w =
     (\<forall>log stack n. fst (driver w log (stack, MemAlloc n)) = CUDA_SUCCESS
        \<longrightarrow> snd (driver w log (stack, MemAlloc n)) \<noteq> 0)"

subsection \<open>Concrete configurations\<close>

text \<open>
  A context that is valid and one that has been torn down; a driver that grants every
  request (every allocation at address 4096) and one that refuses every request with
  status 2 (\<^verbatim>\<open>CUDA_ERROR_OUT_OF_MEMORY\<close>); worlds built from them, in which no context
  is current and no call has been made.
\<close>

definition valid_context :: CudaContext where
  "valid_context = \<lparr>contextIsValid = True, currentStream = 7\<rparr>"

definition invalid_context :: CudaContext where
  "invalid_context = \<lparr>contextIsValid = False, currentStream = 7\<rparr>"

definition granting_driver :: "logged_call list \<Rightarrow> logged_call \<Rightarrow> CUresult \<times> CUdeviceptr" where
  "granting_driver log c = (CUDA_SUCCESS, 4096)"

definition refusing_driver :: "logged_call list \<Rightarrow> logged_call \<Rightarrow> CUresult \<times> CUdeviceptr" where
  "refusing_driver log c = (2, 0)"

definition world_ok :: world where
  "world_ok = \<lparr>driver = granting_driver, calls = [], current = [], contexts = (\<lambda>c. valid_context)\<rparr>"

definition world_refusing :: world where
  "world_refusing = \<lparr>driver = refusing_driver, calls = [], current = [], contexts = (\<lambda>c. valid_context)\<rparr>"

definition world_torn_down :: world where
  "world_torn_down = \<lparr>driver = granting_driver, calls = [], current = [], contexts = (\<lambda>c. invalid_context)\<rparr>"

text \<open>
  An array of 10 elements of 4 bytes at address 8192 that owns its memory, a view of the
  same memory that does not, an array of 5 elements, and an array as the default
  constructor leaves it.
\<close>

definition posq :: CudaArray where
  "posq = \<lparr>context_ptr = 1, pointer = 8192, size_arr = 10, elementSize = 4,
            ownsMemory = True, name = ''posq''\<rparr>"

definition posq_view :: CudaArray where
  "posq_view = \<lparr>context_ptr = 1, pointer = 8192, size_arr = 10, elementSize = 4,
                 ownsMemory = False, name = ''view''\<rparr>"

definition velm :: CudaArray where
  "velm = \<lparr>context_ptr = 1, pointer = 12288, size_arr = 5, elementSize = 4,
            ownsMemory = True, name = ''velm''\<rparr>"

definition blank :: CudaArray where
  "blank = CudaArray_new \<lparr>context_ptr = 0, pointer = 0, size_arr = 0, elementSize = 0,
                           ownsMemory = False, name = []\<rparr>"

section \<open>Auxiliary facts\<close>

lemmas prims = issue_def cuMemAlloc_def cuMemFree_def cuMemcpyHtoD_def cuMemcpyHtoDAsync_def
  cuMemcpyDtoH_def cuMemcpyDtoHAsync_def cuMemcpyDtoDAsync_def pushAsCurrent_def popAsCurrent_def

lemmas configs = world_ok_def world_refusing_def world_torn_down_def granting_driver_def
  refusing_driver_def valid_context_def invalid_context_def posq_def posq_view_def velm_def
  blank_def CudaArray_new_def CUDA_SUCCESS_def








section \<open>Properties\<close>

subsection \<open>Context guards\<close>

text \<open>
  C1, as the code has it: \<open>initialize\<close>, \<open>resize\<close> and the destructor make their
  allocation and free calls while a guard for the array's context is active, and leave
  the stack of current contexts as they found it, whether they return or throw (a
  destructor whose free is refused ends the process, its guard still active).
  \<open>uploadSubArray\<close>, \<open>download\<close> and \<open>copyTo\<close> acquire no guard: each of their driver
  calls is made under exactly the contexts that were current when the operation was
  called.
\<close>

theorem guard_scope:
  "list_all (guarded c) (new_calls w (snd (snd (initialize this w (Cuda_Context c) sz es nm))))
   \<and> list_all (guarded (context_ptr this)) (new_calls w (snd (snd (resize this w sz))))
   \<and> list_all (guarded (context_ptr this)) (new_calls w (snd (CudaArray_destroy this w)))
   \<and> current (snd (snd (initialize this w (Cuda_Context c) sz es nm))) = current w
   \<and> current (snd (snd (resize this w sz))) = current w
   \<and> current (snd (CudaArray_destroy this w)) =
        (case fst (CudaArray_destroy this w) of
           Returned \<Rightarrow> current w
         | Terminated e \<Rightarrow> context_ptr this # current w)
   \<and> list_all (\<lambda>e. fst e = current w)
        (new_calls w (snd (snd (uploadSubArray this w data offset elements blocking))))
   \<and> list_all (\<lambda>e. fst e = current w) (new_calls w (snd (snd (download this w data blocking))))
   \<and> list_all (\<lambda>e. fst e = current w) (new_calls w (snd (snd (copyTo this w dest))))"
proof (intro conjI)
  show "list_all (guarded c) (new_calls w (snd (snd (initialize this w (Cuda_Context c) sz es nm))))"
    by (simp add: initialize_def prims new_calls_def guarded_def Let_def split_def)
  show "list_all (guarded (context_ptr this)) (new_calls w (snd (snd (resize this w sz))))"
    by (simp add: resize_def initialize_def prims new_calls_def guarded_def Let_def split_def)
  show "list_all (guarded (context_ptr this)) (new_calls w (snd (CudaArray_destroy this w)))"
    by (simp add: CudaArray_destroy_def prims new_calls_def guarded_def Let_def split_def)
  show "current (snd (snd (initialize this w (Cuda_Context c) sz es nm))) = current w"
    by (simp add: initialize_def prims Let_def split_def)
  show "current (snd (snd (resize this w sz))) = current w"
    by (simp add: resize_def initialize_def prims Let_def split_def)
  show "current (snd (CudaArray_destroy this w)) =
        (case fst (CudaArray_destroy this w) of
           Returned \<Rightarrow> current w
         | Terminated e \<Rightarrow> context_ptr this # current w)"
    by (simp add: CudaArray_destroy_def prims Let_def split_def)
  show "list_all (\<lambda>e. fst e = current w)
        (new_calls w (snd (snd (uploadSubArray this w data offset elements blocking))))"
    by (simp add: uploadSubArray_def prims new_calls_def Let_def split_def)
  show "list_all (\<lambda>e. fst e = current w) (new_calls w (snd (snd (download this w data blocking))))"
    by (simp add: download_def prims new_calls_def Let_def split_def)
  show "list_all (\<lambda>e. fst e = current w) (new_calls w (snd (snd (copyTo this w dest))))"
    by (cases dest) (simp_all add: copyTo_def prims new_calls_def Let_def split_def)
qed

theorem guard_scope_witness:
  "new_calls world_ok (snd (snd (resize posq world_ok 20))) = [([1], MemFree 8192), ([1, 1], MemAlloc 80)]
   \<and> list_all (guarded (context_ptr posq)) (new_calls world_ok (snd (snd (resize posq world_ok 20))))
   \<and> new_calls world_ok (snd (snd (copyTo posq world_ok (Cuda_Array posq_view))))
        = [([], MemcpyDtoDAsync 8192 8192 40 7)]
   \<and> list_all (\<lambda>e. fst e = current world_ok)
        (new_calls world_ok (snd (snd (copyTo posq world_ok (Cuda_Array posq_view)))))"
  using guard_scope [of 1 world_ok posq 20 4 "''posq''" 100 0 10 True "Cuda_Array posq_view"]
  by (simp add: resize_def initialize_def copyTo_def getDevicePointer_def prims new_calls_def
      configs Let_def)

text \<open>
  C1 fails as stated: with no context current, an upload, a download and a copy of an
  initialized array each make their driver call, and no guard is active when they do.
\<close>

theorem copies_unguarded_counterexample:
  "new_calls world_ok (snd (snd (uploadSubArray posq world_ok 100 0 10 True)))
      = [([], MemcpyHtoD 8192 100 40)]
   \<and> \<not> list_all (guarded (context_ptr posq))
         (new_calls world_ok (snd (snd (uploadSubArray posq world_ok 100 0 10 True))))
   \<and> \<not> list_all (guarded (context_ptr posq))
         (new_calls world_ok (snd (snd (download posq world_ok 100 True))))
   \<and> \<not> list_all (guarded (context_ptr posq))
         (new_calls world_ok (snd (snd (copyTo posq world_ok (Cuda_Array posq_view)))))"
  by (simp add: uploadSubArray_def download_def copyTo_def getSize_def getDevicePointer_def
      prims new_calls_def guarded_def configs Let_def)

subsection \<open>Initialization\<close>

text \<open>
  C7: on an array that is already initialized (its handle is not 0), \<open>initialize\<close> throws
  the misuse exception and changes neither the array (handle, ownsMemory, element count,
  element size, name and context all keep their values) nor the world.
\<close>

theorem initialize_twice_unchanged:
  "pointer this \<noteq> 0 \<Longrightarrow>
   initialize this w ctxt sz elSize nm =
     (Some (OpenMMException [Str ''CudaArray has already been initialized'']), this, w)"
  by (simp add: initialize_def)

theorem initialize_twice_unchanged_witness:
  "pointer posq \<noteq> 0 \<and>
   initialize posq world_ok (Cuda_Context 2) 20 8 ''other'' =
     (Some (OpenMMException [Str ''CudaArray has already been initialized'']), posq, world_ok)"
  using initialize_twice_unchanged [of posq world_ok "Cuda_Context 2" 20 8 "''other''"]
  by (simp add: posq_def)

text \<open>
  C3, as the code has it: when the allocation of \<open>initialize\<close> on an uninitialized array
  reports a status other than success, \<open>initialize\<close> throws the exception "Error creating
  array", which carries the name and the status, and the handle stays 0; the one driver
  call made is that allocation, under a guard for the context. The other attributes are
  not kept: context, element count, element size and name hold the arguments of the call,
  and ownsMemory is true.
\<close>

theorem initialize_alloc_failure:
  assumes "pointer this = 0"
    and "status w (c # current w) (MemAlloc (sz * scast es)) \<noteq> CUDA_SUCCESS"
  shows "initialize this w (Cuda_Context c) sz es nm =
    (Some (driver_error ''Error creating array '' nm
        (status w (c # current w) (MemAlloc (sz * scast es)))),
     this\<lparr>context_ptr := c, size_arr := sz, elementSize := es, name := nm, ownsMemory := True\<rparr>,
     logged w (c # current w) (MemAlloc (sz * scast es)))
   \<and> pointer (fst (snd (initialize this w (Cuda_Context c) sz es nm))) = 0"
  using assms by (simp add: initialize_def prims status_def logged_def Let_def split_def)

theorem initialize_alloc_failure_witness:
  "pointer blank = 0
   \<and> status world_refusing (3 # current world_refusing) (MemAlloc (20 * scast (8 :: c_int))) \<noteq> CUDA_SUCCESS
   \<and> initialize blank world_refusing (Cuda_Context 3) 20 8 ''forces'' =
       (Some (driver_error ''Error creating array '' ''forces'' 2),
        \<lparr>context_ptr = 3, pointer = 0, size_arr = 20, elementSize = 8, ownsMemory = True,
         name = ''forces''\<rparr>,
        logged world_refusing [3] (MemAlloc 160))"
  using initialize_alloc_failure [of blank world_refusing 3 20 8 "''forces''"]
  by (simp add: configs status_def)

text \<open>
  C3 fails as stated: after a failed allocation the array of the default constructor
  owns its memory and has the element count, the element size, the name and the context
  of the call, none of which it had before.
\<close>

theorem initialize_alloc_failure_counterexample:
  "pointer blank = 0
   \<and> fst (initialize blank world_refusing (Cuda_Context 3) 20 8 ''forces'')
       = Some (driver_error ''Error creating array '' ''forces'' 2)
   \<and> \<not> ownsMemory blank
   \<and> ownsMemory (fst (snd (initialize blank world_refusing (Cuda_Context 3) 20 8 ''forces'')))
   \<and> size_arr blank = 0
   \<and> size_arr (fst (snd (initialize blank world_refusing (Cuda_Context 3) 20 8 ''forces''))) = 20
   \<and> name blank = []
   \<and> name (fst (snd (initialize blank world_refusing (Cuda_Context 3) 20 8 ''forces''))) = ''forces''"
  by (simp add: initialize_def prims configs Let_def)

subsection \<open>Resizing\<close>

text \<open>
  C8: on an array that is uninitialized or does not own its memory, \<open>resize\<close> throws a
  misuse exception and leaves the array and the world as they were: no free and no
  allocation is issued, the handle and every attribute keep their values.
\<close>

theorem resize_misuse:
  assumes "pointer this = 0 \<or> \<not> ownsMemory this"
  shows "resize this w sz =
    (Some (OpenMMException [Str (if pointer this = 0 then ''CudaArray has not been initialized''
       else ''Cannot resize an array that does not own its storage'')]), this, w)"
  using assms by (auto simp add: resize_def)

theorem resize_misuse_witness:
  "pointer posq_view \<noteq> 0 \<and> \<not> ownsMemory posq_view
   \<and> resize posq_view world_ok 20 =
       (Some (OpenMMException [Str ''Cannot resize an array that does not own its storage'']),
        posq_view, world_ok)
   \<and> pointer blank = 0
   \<and> resize blank world_ok 20 =
       (Some (OpenMMException [Str ''CudaArray has not been initialized'']), blank, world_ok)"
  using resize_misuse [of posq_view world_ok 20] resize_misuse [of blank world_ok 20]
  by (simp add: posq_view_def blank_def CudaArray_new_def)

text \<open>
  C2, as the code has it: when the free of \<open>resize\<close> on an initialized array that owns
  its memory reports a status other than success, \<open>resize\<close> throws the exception "Error
  deleting array" with the name and the status before it attempts an allocation (the
  free is the one driver call made), and it leaves the array as it was: the handle is
  not cleared and keeps the address that was passed to the free. A later \<open>resize\<close> of
  the array, in whatever world \<open>v\<close>, passes that address to the driver's free again as
  its first driver call, and so does a later destruction of the array while its context
  is still valid.
\<close>

theorem resize_free_failure:
  assumes "pointer this \<noteq> 0" and "ownsMemory this"
    and "status w (context_ptr this # current w) (MemFree (pointer this)) \<noteq> CUDA_SUCCESS"
  shows "resize this w sz =
    (Some (driver_error ''Error deleting array '' (name this)
        (status w (context_ptr this # current w) (MemFree (pointer this)))),
     this, logged w (context_ptr this # current w) (MemFree (pointer this)))
   \<and> take 1 (new_calls v (snd (snd (resize this v sz'))))
        = [(context_ptr this # current v, MemFree (pointer this))]
   \<and> (contextIsValid (contexts v (context_ptr this)) \<longrightarrow>
        new_calls v (snd (CudaArray_destroy this v))
        = [(context_ptr this # current v, MemFree (pointer this))])"
proof (intro conjI impI)
  show "resize this w sz =
    (Some (driver_error ''Error deleting array '' (name this)
        (status w (context_ptr this # current w) (MemFree (pointer this)))),
     this, logged w (context_ptr this # current w) (MemFree (pointer this)))"
    using assms by (simp add: resize_def prims status_def logged_def Let_def split_def)
next
  show "take 1 (new_calls v (snd (snd (resize this v sz'))))
        = [(context_ptr this # current v, MemFree (pointer this))]"
    using assms(1,2)
    by (simp add: resize_def initialize_def prims new_calls_def Let_def split_def)
next
  assume "contextIsValid (contexts v (context_ptr this))"
  then show "new_calls v (snd (CudaArray_destroy this v))
        = [(context_ptr this # current v, MemFree (pointer this))]"
    using assms(1,2) by (simp add: CudaArray_destroy_def prims new_calls_def Let_def split_def)
qed

theorem resize_free_failure_witness:
  "pointer posq \<noteq> 0 \<and> ownsMemory posq
   \<and> status world_refusing (context_ptr posq # current world_refusing) (MemFree (pointer posq))
       \<noteq> CUDA_SUCCESS
   \<and> resize posq world_refusing 20 =
       (Some (driver_error ''Error deleting array '' ''posq'' 2), posq,
        logged world_refusing [1] (MemFree 8192))
   \<and> take 1 (new_calls (logged world_refusing [1] (MemFree 8192))
         (snd (snd (resize posq (logged world_refusing [1] (MemFree 8192)) 30))))
       = [([1], MemFree 8192)]
   \<and> contextIsValid (contexts (logged world_refusing [1] (MemFree 8192)) (context_ptr posq))
   \<and> new_calls (logged world_refusing [1] (MemFree 8192))
         (snd (CudaArray_destroy posq (logged world_refusing [1] (MemFree 8192))))
       = [([1], MemFree 8192)]"
  using resize_free_failure [of posq world_refusing 20 "logged world_refusing [1] (MemFree 8192)" 30]
  by (simp add: configs status_def logged_def)

text \<open>
  C2 fails as stated: after a \<open>resize\<close> whose free was refused the handle is still the
  old address and not 0, and destroying the array afterwards passes that address to the
  driver's free a second time.
\<close>

theorem resize_free_failure_counterexample:
  "fst (resize posq world_refusing 20) = Some (driver_error ''Error deleting array '' ''posq'' 2)
   \<and> pointer (fst (snd (resize posq world_refusing 20))) = 8192
   \<and> pointer (fst (snd (resize posq world_refusing 20))) \<noteq> 0
   \<and> calls (snd (CudaArray_destroy (fst (snd (resize posq world_refusing 20)))
               (snd (snd (resize posq world_refusing 20)))))
       = [([1], MemFree 8192), ([1], MemFree 8192)]"
  by (simp add: resize_def CudaArray_destroy_def prims configs Let_def)

text \<open>
  C9: let an initialized array that owns its memory be resized with success, by a driver
  whose successful allocations return an address other than null. Then the array is
  initialized, its element count is the new one, its element size, name, context and
  ownsMemory are unchanged, and the array is exactly the one that \<open>initialize\<close>, called
  with these arguments at the point where \<open>resize\<close> calls it, leaves of an array fresh
  from the default constructor.
\<close>

theorem resize_success:
  assumes "pointer this \<noteq> 0" and "ownsMemory this" and "alloc_nonnull w"
    and "resize this w sz = (None, this', w')"
  shows "pointer this' \<noteq> 0 \<and> size_arr this' = sz \<and> elementSize this' = elementSize this
     \<and> name this' = name this \<and> context_ptr this' = context_ptr this
     \<and> ownsMemory this' = ownsMemory this
     \<and> initialize (CudaArray_new raw)
          (logged (pushAsCurrent (context_ptr this) w) (context_ptr this # current w)
             (MemFree (pointer this)))
          (Cuda_Context (context_ptr this)) sz (elementSize this) (name this)
        = (None, this', pushAsCurrent (context_ptr this) w')"
  using assms
  apply (simp add: resize_def initialize_def CudaArray_new_def prims logged_def alloc_nonnull_def
      Let_def split_def split: if_splits)
  apply auto
  done

theorem resize_success_witness:
  "pointer posq \<noteq> 0 \<and> ownsMemory posq \<and> alloc_nonnull world_ok
   \<and> resize posq world_ok 20 =
       (None,
        \<lparr>context_ptr = 1, pointer = 4096, size_arr = 20, elementSize = 4, ownsMemory = True,
         name = ''posq''\<rparr>,
        world_ok\<lparr>calls := [([1], MemFree 8192), ([1, 1], MemAlloc 80)]\<rparr>)
   \<and> initialize blank (logged (pushAsCurrent 1 world_ok) [1] (MemFree 8192)) (Cuda_Context 1)
         20 4 ''posq'' =
       (None,
        \<lparr>context_ptr = 1, pointer = 4096, size_arr = 20, elementSize = 4, ownsMemory = True,
         name = ''posq''\<rparr>,
        pushAsCurrent 1 (world_ok\<lparr>calls := [([1], MemFree 8192), ([1, 1], MemAlloc 80)]\<rparr>))"
proof -
  have p: "pointer posq \<noteq> 0" and q: "ownsMemory posq"
    by (simp_all add: posq_def)
  have n: "alloc_nonnull world_ok"
    by (simp add: alloc_nonnull_def configs)
  have r: "resize posq world_ok 20 =
       (None,
        \<lparr>context_ptr = 1, pointer = 4096, size_arr = 20, elementSize = 4, ownsMemory = True,
         name = ''posq''\<rparr>,
        world_ok\<lparr>calls := [([1], MemFree 8192), ([1, 1], MemAlloc 80)]\<rparr>)"
    by (simp add: resize_def initialize_def prims configs Let_def)
  from resize_success [OF p q n r, of "\<lparr>context_ptr = 0, pointer = 0, size_arr = 0,
      elementSize = 0, ownsMemory = False, name = []\<rparr>"]
  have "initialize blank (logged (pushAsCurrent 1 world_ok) [1] (MemFree 8192)) (Cuda_Context 1)
         20 4 ''posq'' =
       (None,
        \<lparr>context_ptr = 1, pointer = 4096, size_arr = 20, elementSize = 4, ownsMemory = True,
         name = ''posq''\<rparr>,
        pushAsCurrent 1 (world_ok\<lparr>calls := [([1], MemFree 8192), ([1, 1], MemAlloc 80)]\<rparr>))"
    by (simp add: blank_def posq_def world_ok_def)
  with p q n r show ?thesis by simp
qed

subsection \<open>Uploading\<close>




text \<open>
  C10: the bounds check of \<open>uploadSubArray\<close> does not reject a negative
  elementsToCopy. There is an initialized array and an input with elementsToCopy < 0 and
  offset \<ge> 0 for which the check offset < 0 || offset + elementsToCopy > elementCount
  passes: no bounds exception is thrown, and a driver copy is issued whose byte count is
  elementsToCopy \<times> elementSize, converted to \<^verbatim>\<open>size_t\<close> (for the array of 10 elements of
  4 bytes, offset = 1 and elementsToCopy = -1 this is 2^64 - 4).
\<close>

theorem uploadSubArray_negative_elements:
  "\<exists>this offset elements.
      pointer this \<noteq> 0 \<and> sint elements < 0 \<and> 0 \<le> sint offset
      \<and> \<not> (offset <s 0 \<or> scast (offset + elements) > getSize this)
      \<and> (\<forall>w data.
            fst (uploadSubArray this w data offset elements True)
              \<noteq> Some (OpenMMException [Str ''uploadSubArray: data exceeds range of array''])
            \<and> new_calls w (snd (snd (uploadSubArray this w data offset elements True))) =
                [(current w, MemcpyHtoD (pointer this + scast (offset * elementSize this)) data
                    (word_of_int (sint elements * sint (elementSize this))))]
            \<and> uint (word_of_int (sint elements * sint (elementSize this)) :: size_t) = 2 ^ 64 - 4)"
proof (intro exI conjI allI)
  show "pointer posq \<noteq> 0" by (simp add: posq_def)
  show "sint (- 1 :: c_int) < 0" by simp
  show "0 \<le> sint (1 :: c_int)" by simp
  show "\<not> ((1 :: c_int) <s 0 \<or> scast ((1 :: c_int) + - 1) > getSize posq)"
    by (simp add: getSize_def posq_def word_sless_alt)
  show "fst (uploadSubArray posq w data 1 (- 1) True)
      \<noteq> Some (OpenMMException [Str ''uploadSubArray: data exceeds range of array''])" for w data
    by (simp add: uploadSubArray_def getSize_def driver_error_def prims posq_def word_sless_alt
        Let_def split_def)
  show "new_calls w (snd (snd (uploadSubArray posq w data 1 (- 1) True))) =
      [(current w, MemcpyHtoD (pointer posq + scast (1 * elementSize posq)) data
          (word_of_int (sint (- 1 :: c_int) * sint (elementSize posq))))]" for w data
    by (simp add: uploadSubArray_def getSize_def new_calls_def prims posq_def word_sless_alt
        Let_def split_def)
  show "uint (word_of_int (sint (- 1 :: c_int) * sint (elementSize posq)) :: size_t) = 2 ^ 64 - 4"
    by (simp add: posq_def)
qed

text \<open>
  The input offset = 0, elementsToCopy = -1. The sum -1 is converted to \<^verbatim>\<open>size_t\<close> for
  the comparison with the element count and is then 2^64 - 1. On the array of 10
  elements it is therefore out of range. It passes the check on an array of 2^64 - 1
  elements, which \<open>initialize\<close> makes when the element size is -1 (an allocation of one
  byte), and a copy of one byte is then issued.
\<close>

lemma uploadSubArray_minus_one:
  "uploadSubArray posq world_ok 100 0 (- 1) True =
       (Some (OpenMMException [Str ''uploadSubArray: data exceeds range of array'']), posq, world_ok)
   \<and> initialize blank world_ok (Cuda_Context 1) (- 1) (- 1) ''all'' =
       (None,
        \<lparr>context_ptr = 1, pointer = 4096, size_arr = - 1, elementSize = - 1, ownsMemory = True,
         name = ''all''\<rparr>,
        logged world_ok [1] (MemAlloc 1))
   \<and> uploadSubArray
         \<lparr>context_ptr = 1, pointer = 4096, size_arr = - 1, elementSize = - 1, ownsMemory = True,
          name = ''all''\<rparr> world_ok 100 0 (- 1) True =
       (None,
        \<lparr>context_ptr = 1, pointer = 4096, size_arr = - 1, elementSize = - 1, ownsMemory = True,
         name = ''all''\<rparr>,
        logged world_ok [] (MemcpyHtoD 4096 100 1))"
  by (simp add: uploadSubArray_def initialize_def getSize_def prims logged_def configs Let_def)

subsection \<open>Copying to another array\<close>

text \<open>
  C6: on an initialized array, when the destination's element count or its element size
  differs from the source's, \<open>copyTo\<close> throws the size-mismatch exception, whose message
  names both arrays, and leaves array and world as they were: no device call has been
  made and the destination has not been unwrapped (the destination may be an array of
  another platform, which \<open>unwrap\<close> would refuse). The check is exact equality of both:
  when both are equal, the size-mismatch exception is not thrown.
\<close>

theorem copyTo_shape_mismatch:
  assumes "pointer this \<noteq> 0"
  shows "(getSizeI dest \<noteq> size_arr this \<or> getElementSizeI dest \<noteq> elementSize this \<longrightarrow>
            copyTo this w dest =
              (Some (OpenMMException [Str (''Error copying array '' @ name this @ '' to ''
                 @ getNameI dest
                 @ '': The destination array does not match the size of the array'')]), this, w))
       \<and> (getSizeI dest = size_arr this \<and> getElementSizeI dest = elementSize this \<longrightarrow>
            fst (copyTo this w dest) \<noteq> Some (size_mismatch (name this) (getNameI dest)))"
  using assms by (cases dest) (simp_all add: copyTo_def prims size_mismatch_def Let_def split_def)

theorem copyTo_shape_mismatch_witness:
  "pointer posq \<noteq> 0
   \<and> getSizeI (Cuda_Array velm) \<noteq> size_arr posq
   \<and> copyTo posq world_ok (Cuda_Array velm) =
       (Some (OpenMMException [Str ''Error copying array posq to velm: The destination array does not match the size of the array'']),
        posq, world_ok)
   \<and> getElementSizeI (Other_Array 10 8 ''other'') \<noteq> elementSize posq
   \<and> copyTo posq world_ok (Other_Array 10 8 ''other'') =
       (Some (OpenMMException [Str ''Error copying array posq to other: The destination array does not match the size of the array'']),
        posq, world_ok)
   \<and> getSizeI (Cuda_Array posq_view) = size_arr posq
   \<and> getElementSizeI (Cuda_Array posq_view) = elementSize posq
   \<and> fst (copyTo posq world_ok (Cuda_Array posq_view))
       \<noteq> Some (size_mismatch (name posq) (getNameI (Cuda_Array posq_view)))"
  using copyTo_shape_mismatch [of posq "Cuda_Array velm" world_ok]
    copyTo_shape_mismatch [of posq "Other_Array 10 8 ''other''" world_ok]
    copyTo_shape_mismatch [of posq "Cuda_Array posq_view" world_ok]
  by (simp add: posq_def velm_def posq_view_def)

subsection \<open>Destruction\<close>

text \<open>
  The destructor issues the driver's free, once, for the handle and under a guard for the
  array's context, exactly when the handle is not 0, the array owns its memory and its
  context is still valid; otherwise (so whenever the context is invalid) it makes no
  driver call and returns. On the path taken it returns when the free succeeds, and it
  terminates the process, with the exception "Error deleting array" that carries the
  array's name and the status, when the free reports another status.
\<close>

lemma destroy_frees_iff:
  "new_calls w (snd (CudaArray_destroy this w)) =
     (if pointer this \<noteq> 0 \<and> ownsMemory this \<and> contextIsValid (contexts w (context_ptr this))
      then [(context_ptr this # current w, MemFree (pointer this))] else [])
   \<and> fst (CudaArray_destroy this w) =
     (if pointer this \<noteq> 0 \<and> ownsMemory this \<and> contextIsValid (contexts w (context_ptr this))
         \<and> status w (context_ptr this # current w) (MemFree (pointer this)) \<noteq> CUDA_SUCCESS
      then Terminated (OpenMMException [Str ''Error deleting array '', Str (name this), Str '': '',
                   ErrorString (status w (context_ptr this # current w) (MemFree (pointer this))),
                   Str '' ('', Num (status w (context_ptr this # current w) (MemFree (pointer this))),
                   Str '')''])
      else Returned)"
  by (simp add: CudaArray_destroy_def prims status_def new_calls_def driver_error_def Let_def
      split_def)

lemma destroy_examples:
  "CudaArray_destroy posq world_ok = (Returned, logged world_ok [1] (MemFree 8192))
   \<and> CudaArray_destroy posq world_torn_down = (Returned, world_torn_down)
   \<and> CudaArray_destroy posq_view world_ok = (Returned, world_ok)
   \<and> CudaArray_destroy blank world_ok = (Returned, world_ok)"
  by (simp add: CudaArray_destroy_def prims logged_def configs Let_def)

text \<open>
  C5, where the code departs from it: the array of 10 elements owns its memory, its
  handle is not 0 and its context is valid, and the driver refuses the free with status
  2. The destructor issues the free under the guard and throws the exception that names
  the array; the exception is not raised to the caller, the process is terminated.
\<close>

theorem destroy_refused_free_terminates:
  "pointer posq \<noteq> 0 \<and> ownsMemory posq
   \<and> contextIsValid (contexts world_refusing (context_ptr posq))
   \<and> status world_refusing (context_ptr posq # current world_refusing) (MemFree (pointer posq))
       = 2
   \<and> CudaArray_destroy posq world_refusing =
       (Terminated (OpenMMException [Str ''Error deleting array '', Str ''posq'', Str '': '',
                      ErrorString 2, Str '' ('', Num 2, Str '')'']),
        logged (pushAsCurrent 1 world_refusing) [1] (MemFree 8192))"
  by (simp add: CudaArray_destroy_def driver_error_def prims status_def logged_def configs Let_def)

end
